theory Spec2Isabelle
  imports Complex_Main
begin

section \<open>Python errors and the block structure of the notebook's definitions\<close>

text \<open>
  The two notebooks are exercise skeletons: several function bodies hold only \<open>TODO\<close>
  comments. Python ignores blank and comment-only lines, and a compound statement
  (\<open>def\<close>, \<open>class\<close>, \<open>for\<close>, \<open>with\<close>) whose header is not followed by a deeper-indented
  statement is rejected when the text is compiled (an \<open>IndentationError\<close>, which is a
  subclass of \<open>SyntaxError\<close>). The text of each definition is kept here as the notebook has
  it, one string per line, and that rule is checked on it.
\<close>

datatype py_error = SyntaxError | NameError string | RuntimeError

definition strip_comment :: "string \<Rightarrow> string" where
  "strip_comment l = takeWhile (\<lambda>c. c \<noteq> CHR ''#'') l"

definition code_of :: "string \<Rightarrow> string" where
  "code_of l = rev (dropWhile (\<lambda>c. c = CHR '' '') (rev (strip_comment l)))"

definition indent_of :: "string \<Rightarrow> nat" where
  "indent_of l = length (takeWhile (\<lambda>c. c = CHR '' '') l)"

definition is_logical :: "string \<Rightarrow> bool" where
  "is_logical l = (code_of l \<noteq> [])"

definition is_header :: "string \<Rightarrow> bool" where
  "is_header l = (code_of l \<noteq> [] \<and> last (code_of l) = CHR '':'')"

definition logical_lines :: "string list \<Rightarrow> (nat \<times> bool) list" where
  "logical_lines ls = map (\<lambda>l. (indent_of l, is_header l)) (filter is_logical ls)"

text \<open>
  \<open>check_indent stk hdr ls\<close>: \<open>stk\<close> is the stack of open indentation levels (innermost
  first), \<open>hdr\<close> says that the previous logical line was the header of a compound
  statement, \<open>ls\<close> are the remaining logical lines as (indentation, is a header).
\<close>

fun check_indent :: "nat list \<Rightarrow> bool \<Rightarrow> (nat \<times> bool) list \<Rightarrow> bool" where
  "check_indent stk hdr [] = (\<not> hdr)"
| "check_indent [] hdr ((n, h) # ls) = False"
| "check_indent (t # stk) True ((n, h) # ls) = (t < n \<and> check_indent (n # t # stk) h ls)"
| "check_indent (t # stk) False ((n, h) # ls) =
     (n \<in> set (t # stk) \<and> check_indent (dropWhile (\<lambda>m. n < m) (t # stk)) h ls)"

definition compile_src :: "nat \<Rightarrow> string list \<Rightarrow> py_error + unit" where
  "compile_src base ls =
     (if check_indent [base] False (logical_lines ls) then Inr () else Inl SyntaxError)"

text \<open>
  A function of the notebook is its body guarded by the compilation of its own text: a
  definition that Python rejects yields no callable, and every use of it fails.
\<close>

definition py_def :: "nat \<Rightarrow> string list \<Rightarrow> ('a \<Rightarrow> py_error + 'b) \<Rightarrow> 'a \<Rightarrow> py_error + 'b" where
  "py_def base src body args =
     (case compile_src base src of Inl e \<Rightarrow> Inl e | Inr u \<Rightarrow> body args)"

section \<open>Tensors\<close>

text \<open>
  A tensor is its shape and its elements in row-major order, as a contiguous tensor of the
  framework is. Elements are real numbers: rounding, overflow and NaN of the floating-point
  arithmetic are outside this model.
\<close>

record tensor =
  shape :: "nat list"
  data :: "real list"

definition wf_tensor :: "tensor \<Rightarrow> bool" where
  "wf_tensor t = (length (data t) = prod_list (shape t))"

definition chunks :: "nat \<Rightarrow> 'a list \<Rightarrow> 'a list list" where
  "chunks k xs = map (\<lambda>r. take k (drop (r * k) xs)) [0..<length xs div k]"

text \<open>\<open>torch.zeros\<close>: the tensor of a given shape whose elements are all zero.\<close>

definition zeros :: "nat list \<Rightarrow> tensor" where
  "zeros s = \<lparr>shape = s, data = replicate (prod_list s) 0\<rparr>"

definition relu :: "tensor \<Rightarrow> tensor" where
  "relu t = t\<lparr>data := map (max 0) (data t)\<rparr>"

definition sigmoid :: "tensor \<Rightarrow> tensor" where
  "sigmoid t = t\<lparr>data := map (\<lambda>v. 1 / (1 + exp (- v))) (data t)\<rparr>"

subsection \<open>nn.Linear\<close>

record Linear =
  in_features :: nat
  out_features :: nat
  weight :: "real list"
  bias :: "real list"

text \<open>
  \<open>nn.Linear(n_in, n_out)\<close> creates a weight of shape \<open>[n_out, n_in]\<close> and a bias of shape
  \<open>[n_out]\<close>, filled with random initial values; \<open>w\<close> and \<open>b\<close> stand for those draws.
\<close>

definition nn_Linear :: "nat \<Rightarrow> nat \<Rightarrow> (nat \<Rightarrow> real) \<Rightarrow> (nat \<Rightarrow> real) \<Rightarrow> Linear" where
  "nn_Linear n_in n_out w b =
     \<lparr>in_features = n_in, out_features = n_out,
      weight = map w [0..<n_out * n_in], bias = map b [0..<n_out]\<rparr>"

definition wf_Linear :: "nat \<Rightarrow> nat \<Rightarrow> Linear \<Rightarrow> bool" where
  "wf_Linear n_in n_out L =
     (0 < n_in \<and> in_features L = n_in \<and> out_features L = n_out \<and>
      length (weight L) = n_out * n_in \<and> length (bias L) = n_out)"

definition affine :: "Linear \<Rightarrow> real list \<Rightarrow> real list" where
  "affine L v =
     map2 (\<lambda>row b. sum_list (map2 (*) row v) + b) (chunks (in_features L) (weight L)) (bias L)"

text \<open>
  The layer acts on the last dimension of its input, which has to equal \<open>in_features\<close>;
  any other input raises a \<open>RuntimeError\<close> (shape mismatch).
\<close>

definition Linear_forward :: "Linear \<Rightarrow> tensor \<Rightarrow> py_error + tensor" where
  "Linear_forward L x =
     (if shape x \<noteq> [] \<and> last (shape x) = in_features L
      then Inr \<lparr>shape = butlast (shape x) @ [out_features L],
                data = concat (map (affine L) (chunks (in_features L) (data x)))\<rparr>
      else Inl RuntimeError)"

section \<open>The variational autoencoder notebook\<close>

subsection \<open>The model class\<close>

text \<open>
  The module holds its five layers and the \<open>training\<close> flag every \<open>nn.Module\<close> has
  (set by \<open>model.train()\<close>, cleared by \<open>model.eval()\<close>).
\<close>

record VAE =
  fc1 :: Linear
  fc21 :: Linear
  fc22 :: Linear
  fc3 :: Linear
  fc4 :: Linear
  training :: bool

text \<open>The text of the cell that defines the class and creates the model.\<close>

definition VAE_cell_src :: "string list" where
  "VAE_cell_src =
     [''import torch.nn as nn'',
      ''import torch.nn.functional as F'',
      '''',
      ''class VAE(nn.Module):'',
      ''    def __init__(self):'',
      ''        super(VAE, self).__init__()'',
      '''',
      ''        self.fc1 = nn.Linear(784, 400)'',
      ''        self.fc21 = nn.Linear(400, 20)'',
      ''        self.fc22 = nn.Linear(400, 20)'',
      ''        self.fc3 = nn.Linear(20, 400)'',
      ''        self.fc4 = nn.Linear(400, 784)'',
      '''',
      ''    def encode(self, x):'',
      ''        h1 = F.relu(self.fc1(x))'',
      ''        return self.fc21(h1), self.fc22(h1)# estimates mu, log-variance of approximate posterior q(z|x)'',
      '''',
      ''    def reparameterize(self, mu, logvar):'',
      ''        '',
      ''        # TODO: write some code which returns a random sample from the approximate posterior q(z|x) here'',
      ''        '',
      '''',
      '''',
      ''    def decode(self, z):'',
      ''        h3 = F.relu(self.fc3(z))'',
      ''        return torch.sigmoid(self.fc4(h3))# estimates mu of likelihood p(x|z)'',
      '''',
      ''    def forward(self, x):'',
      ''        '',
      ''        # TODO: write some code which returns'',
      ''        # 1) mu,log-variance of the approximate posterior given x'',
      ''        # 2) mu of the likelihood given a random sample from the posterior given x'',
      ''        '',
      '''',
      ''        '',
      ''        return recon, mu, logvar# should return  (likelihood mu, posterior mu, posterior log-variance)'',
      ''    '',
      ''model = VAE()'']"

definition VAE_init_src :: "string list" where
  "VAE_init_src =
     [''    def __init__(self):'',
      ''        super(VAE, self).__init__()'',
      '''',
      ''        self.fc1 = nn.Linear(784, 400)'',
      ''        self.fc21 = nn.Linear(400, 20)'',
      ''        self.fc22 = nn.Linear(400, 20)'',
      ''        self.fc3 = nn.Linear(20, 400)'',
      ''        self.fc4 = nn.Linear(400, 784)'',
      '''']"

definition VAE_encode_src :: "string list" where
  "VAE_encode_src =
     [''    def encode(self, x):'',
      ''        h1 = F.relu(self.fc1(x))'',
      ''        return self.fc21(h1), self.fc22(h1)# estimates mu, log-variance of approximate posterior q(z|x)'',
      '''']"

definition VAE_reparameterize_src :: "string list" where
  "VAE_reparameterize_src =
     [''    def reparameterize(self, mu, logvar):'',
      ''        '',
      ''        # TODO: write some code which returns a random sample from the approximate posterior q(z|x) here'',
      ''        '',
      '''',
      '''']"

definition VAE_decode_src :: "string list" where
  "VAE_decode_src =
     [''    def decode(self, z):'',
      ''        h3 = F.relu(self.fc3(z))'',
      ''        return torch.sigmoid(self.fc4(h3))# estimates mu of likelihood p(x|z)'',
      '''']"

definition VAE_forward_src :: "string list" where
  "VAE_forward_src =
     [''    def forward(self, x):'',
      ''        '',
      ''        # TODO: write some code which returns'',
      ''        # 1) mu,log-variance of the approximate posterior given x'',
      ''        # 2) mu of the likelihood given a random sample from the posterior given x'',
      ''        '',
      '''',
      ''        '',
      ''        return recon, mu, logvar# should return  (likelihood mu, posterior mu, posterior log-variance)'',
      ''    '']"

text \<open>
  \<open>__init__\<close>: the layer sizes are fixed; \<open>w l\<close> and \<open>b l\<close> are the initial values drawn
  for the \<open>l\<close>-th layer. A new module is in training mode.
\<close>

definition VAE_init :: "(nat \<Rightarrow> nat \<Rightarrow> real) \<Rightarrow> (nat \<Rightarrow> nat \<Rightarrow> real) \<Rightarrow> VAE" where
  "VAE_init w b =
     \<lparr>fc1 = nn_Linear 784 400 (w 0) (b 0),
      fc21 = nn_Linear 400 20 (w 1) (b 1),
      fc22 = nn_Linear 400 20 (w 2) (b 2),
      fc3 = nn_Linear 20 400 (w 3) (b 3),
      fc4 = nn_Linear 400 784 (w 4) (b 4),
      training = True\<rparr>"

text \<open>
  The shapes \<open>__init__\<close> gives the parameters; an optimizer step changes their values in
  place and keeps the shapes.
\<close>

definition wf_VAE :: "VAE \<Rightarrow> bool" where
  "wf_VAE m =
     (wf_Linear 784 400 (fc1 m) \<and> wf_Linear 400 20 (fc21 m) \<and> wf_Linear 400 20 (fc22 m) \<and>
      wf_Linear 20 400 (fc3 m) \<and> wf_Linear 400 784 (fc4 m))"

text \<open>
  \<open>encode\<close> and \<open>decode\<close> are written out. As long as \<open>reparameterize\<close> has no
  statement the cell that holds the class is rejected as a whole; the two definitions say
  what these methods compute by their own text. A layer that raises ends the call, and
  the two layers of the returned pair are applied from left to right.
\<close>

definition VAE_encode :: "VAE \<Rightarrow> tensor \<Rightarrow> py_error + tensor \<times> tensor" where
  "VAE_encode self x =
     (case Linear_forward (fc1 self) x of Inl e \<Rightarrow> Inl e | Inr a \<Rightarrow>
        let h1 = relu a in
        (case Linear_forward (fc21 self) h1 of Inl e \<Rightarrow> Inl e | Inr mu \<Rightarrow>
        (case Linear_forward (fc22 self) h1 of Inl e \<Rightarrow> Inl e | Inr logvar \<Rightarrow>
           Inr (mu, logvar))))"

definition VAE_decode :: "VAE \<Rightarrow> tensor \<Rightarrow> py_error + tensor" where
  "VAE_decode self z =
     (case Linear_forward (fc3 self) z of Inl e \<Rightarrow> Inl e | Inr a \<Rightarrow>
        let h3 = relu a in
        (case Linear_forward (fc4 self) h3 of Inl e \<Rightarrow> Inl e | Inr b \<Rightarrow> Inr (sigmoid b)))"

text \<open>
  \<open>reparameterize\<close> has a header and no statement. Were its text accepted, a body without
  a \<open>return\<close> would give Python's \<open>None\<close>, here \<open>None\<close> of the option type.
\<close>

definition VAE_reparameterize :: "VAE \<Rightarrow> tensor \<Rightarrow> tensor \<Rightarrow> py_error + tensor option" where
  "VAE_reparameterize self mu logvar =
     py_def 4 VAE_reparameterize_src (\<lambda>(self, mu, logvar). Inr None) (self, mu, logvar)"

text \<open>
  \<open>forward\<close> holds one statement, \<open>return recon, mu, logvar\<close>. A name is looked up in the
  local variables of the call (the parameters \<open>self\<close> and \<open>x\<close>), then in the global
  variables of the notebook; a name bound in neither raises \<open>NameError\<close>. The elements of
  the returned tuple are evaluated from left to right.
\<close>

datatype pyval = TensorV tensor | ModuleV VAE | ObjV string

definition lookup_name ::
  "(string \<rightharpoonup> pyval) \<Rightarrow> (string \<rightharpoonup> pyval) \<Rightarrow> string \<Rightarrow> py_error + pyval" where
  "lookup_name locals globals n =
     (case locals n of Some v \<Rightarrow> Inr v
      | None \<Rightarrow> (case globals n of Some v \<Rightarrow> Inr v | None \<Rightarrow> Inl (NameError n)))"

definition VAE_forward ::
  "(string \<rightharpoonup> pyval) \<Rightarrow> VAE \<Rightarrow> tensor \<Rightarrow> py_error + pyval \<times> pyval \<times> pyval" where
  "VAE_forward globals self x =
     (let locals = [''self'' \<mapsto> ModuleV self, ''x'' \<mapsto> TensorV x] in
      case lookup_name locals globals ''recon'' of Inl e \<Rightarrow> Inl e | Inr recon \<Rightarrow>
      (case lookup_name locals globals ''mu'' of Inl e \<Rightarrow> Inl e | Inr mu \<Rightarrow>
      (case lookup_name locals globals ''logvar'' of Inl e \<Rightarrow> Inl e | Inr logvar \<Rightarrow>
         Inr (recon, mu, logvar))))"

text \<open>
  Every name that a top-level statement of the notebook binds (imports, assignments,
  \<open>def\<close>, \<open>class\<close> and the variables of top-level \<open>for\<close> loops), in the order of the
  cells. The values are opaque here: only which names are bound matters for \<open>forward\<close>.
  None of the three returned names is a built-in name of Python either.
\<close>

definition notebook_globals :: "string \<rightharpoonup> pyval" where
  "notebook_globals =
     map_of (map (\<lambda>n. (n, ObjV n))
       [''np'', ''torch'', ''plt'', ''datasets'', ''transforms'', ''DataLoader'',
        ''train_dataset'', ''test_dataset'', ''i'', ''im'', ''label'', ''nn'', ''F'',
        ''VAE'', ''model'', ''loss_function'', ''optim'', ''optimizer'', ''train_loader'',
        ''test_loader'', ''train'', ''test'', ''epoch''])"

subsection \<open>The loss\<close>

definition loss_function_src :: "string list" where
  "loss_function_src =
     [''def loss_function(recon, x, mu, logvar):'',
      ''    '',
      ''    # TODO: write some code here to compute the negative ELBO shown above.'',
      ''    '',
      ''    # The reconstruction term can be approximated with a single sample from the approximate posterior.'',
      ''    # Use the analytical exppression for the KL term.'',
      ''    # recon, mu and logvar are the outputs from model.forward(x).'',
      ''    '']"

definition loss_function ::
  "tensor \<Rightarrow> tensor \<Rightarrow> tensor \<Rightarrow> tensor \<Rightarrow> py_error + real option" where
  "loss_function recon x mu logvar =
     py_def 0 loss_function_src (\<lambda>(recon, x, mu, logvar). Inr None) (recon, x, mu, logvar)"

text \<open>
  Modelled from the spec: the body of \<open>loss_function\<close> is missing from the notebook (only
  \<open>TODO\<close> comments stand there). The spec gives the closed-form KL term of one data point
  as \<open>-\<onehalf>\<cdot>\<Sum>(1 + log-variance - exp(log-variance) - mean\<^sup>2)\<close>, summed over the latent
  dimensions.
\<close>

definition kl_term :: "real list \<Rightarrow> real list \<Rightarrow> real" where
  "kl_term mu logvar = - (1 / 2) * (\<Sum>(m, l)\<leftarrow>zip mu logvar. 1 + l - exp l - m\<^sup>2)"

text \<open>
  The theory cell of the notebook states the same term in the mean \<open>g\<close> and the standard
  deviation \<open>h\<close> of the approximate posterior:
  \<open>-\<onehalf>\<cdot>\<Sum>\<^sub>j [1 + log(h\<^sub>j\<^sup>2) - h\<^sub>j\<^sup>2 - g\<^sub>j\<^sup>2]\<close>.
\<close>

definition kl_notebook :: "real list \<Rightarrow> real list \<Rightarrow> real" where
  "kl_notebook g h = - (1 / 2) * (\<Sum>(gj, hj)\<leftarrow>zip g h. 1 + ln (hj\<^sup>2) - hj\<^sup>2 - gj\<^sup>2)"

text \<open>
  Modelled from the spec: the body of \<open>reparameterize\<close> is missing from the notebook (only
  a \<open>TODO\<close> comment stands there). The spec gives the sample as
  \<open>mean + exp(\<onehalf>\<cdot>log-variance) \<cdot> noise\<close>, elementwise.
\<close>

definition sample_formula :: "tensor \<Rightarrow> tensor \<Rightarrow> tensor \<Rightarrow> tensor" where
  "sample_formula mu logvar eps =
     \<lparr>shape = shape mu,
      data = map (\<lambda>(m, l, e). m + exp ((1 / 2) * l) * e)
                 (zip (data mu) (zip (data logvar) (data eps)))\<rparr>"

subsection \<open>Training and evaluation\<close>

definition train_test_cell_src :: "string list" where
  "train_test_cell_src =
     [''def train(epoch):'',
      ''    model.train()'',
      ''    '',
      ''    train_loss = 0'',
      ''    for batch_idx, (data, _) in enumerate(train_loader):'',
      ''        '',
      ''        # TODO: write some code here'',
      ''        # carry out an optimisation step for each batch'',
      ''        # after each epoch report the average loss over the training dataset'',
      ''        '',
      '''',
      '''',
      '''',
      ''def test(epoch):'',
      ''    model.eval()'',
      ''    '',
      ''    test_loss = 0'',
      ''    with torch.no_grad():'',
      ''        for i, (data, _) in enumerate(test_loader):'',
      ''            '',
      ''            # TODO: write some code here'',
      ''            # report the average loss over the test dataset'',
      ''            '',
      '''',
      '''',
      ''for epoch in range(1, 5):'',
      ''    train(epoch)'',
      ''    test(epoch)'']"

definition test_src :: "string list" where
  "test_src =
     [''def test(epoch):'',
      ''    model.eval()'',
      ''    '',
      ''    test_loss = 0'',
      ''    with torch.no_grad():'',
      ''        for i, (data, _) in enumerate(test_loader):'',
      ''            '',
      ''            # TODO: write some code here'',
      ''            # report the average loss over the test dataset'',
      ''            '',
      '''',
      '''']"

text \<open>
  The state an evaluation would act on: the model and the switch of gradient tracking.
  \<open>test\<close> returns the error raised, if any, and the state it leaves. The body of its loop
  is not in the notebook, so what the statements of an accepted definition would do to the
  state is a parameter, \<open>completed\<close>. A definition that is rejected runs no statement.
\<close>

record nb_state =
  model :: VAE
  grad_enabled :: bool

definition test ::
  "(nat \<Rightarrow> tensor list \<Rightarrow> nb_state \<Rightarrow> nb_state) \<Rightarrow> nat \<Rightarrow> tensor list \<Rightarrow> nb_state \<Rightarrow>
   py_error option \<times> nb_state" where
  "test completed epoch test_loader s =
     (case compile_src 0 test_src of
        Inl e \<Rightarrow> (Some e, s)
      | Inr u \<Rightarrow> (None, completed epoch test_loader s))"

section \<open>The classifier notebook\<close>

subsection \<open>Convolution, pooling, view and dropout\<close>

record Conv2d =
  in_channels :: nat
  out_channels :: nat
  kernel_size :: nat
  conv_weight :: "real list"
  conv_bias :: "real list"

text \<open>
  \<open>nn.Conv2d(c_in, c_out, kernel_size=k)\<close>: a weight of shape \<open>[c_out, c_in, k, k]\<close> and a
  bias of shape \<open>[c_out]\<close>, stride 1 and no padding. The layer is applied to batches, of
  shape \<open>[N, C, H, W]\<close>; a batch of no image gives a result of no image.
\<close>

definition nn_Conv2d :: "nat \<Rightarrow> nat \<Rightarrow> nat \<Rightarrow> (nat \<Rightarrow> real) \<Rightarrow> (nat \<Rightarrow> real) \<Rightarrow> Conv2d" where
  "nn_Conv2d c_in c_out k w b =
     \<lparr>in_channels = c_in, out_channels = c_out, kernel_size = k,
      conv_weight = map w [0..<c_out * c_in * k * k], conv_bias = map b [0..<c_out]\<rparr>"

definition wf_Conv2d :: "nat \<Rightarrow> nat \<Rightarrow> nat \<Rightarrow> Conv2d \<Rightarrow> bool" where
  "wf_Conv2d c_in c_out k L =
     (in_channels L = c_in \<and> out_channels L = c_out \<and> kernel_size L = k \<and>
      length (conv_weight L) = c_out * c_in * k * k \<and> length (conv_bias L) = c_out)"

text \<open>Position of element \<open>(n, c, i, j)\<close> of a tensor of shape \<open>[N, C, H, W]\<close>.\<close>

definition idx4 :: "nat \<Rightarrow> nat \<Rightarrow> nat \<Rightarrow> nat \<Rightarrow> nat \<Rightarrow> nat \<Rightarrow> nat \<Rightarrow> nat" where
  "idx4 C H W n c i j = ((n * C + c) * H + i) * W + j"

definition tabulate4 ::
  "nat \<Rightarrow> nat \<Rightarrow> nat \<Rightarrow> nat \<Rightarrow> (nat \<Rightarrow> nat \<Rightarrow> nat \<Rightarrow> nat \<Rightarrow> real) \<Rightarrow> real list" where
  "tabulate4 N C H W f =
     concat (map (\<lambda>n. concat (map (\<lambda>c. concat (map (\<lambda>i. map (\<lambda>j. f n c i j) [0..<W])
       [0..<H])) [0..<C])) [0..<N])"

definition Conv2d_forward :: "Conv2d \<Rightarrow> tensor \<Rightarrow> py_error + tensor" where
  "Conv2d_forward L x =
     (case shape x of
        [N, C, H, W] \<Rightarrow>
          let k = kernel_size L in
          if C = in_channels L \<and> k \<le> H \<and> k \<le> W
          then Inr \<lparr>shape = [N, out_channels L, H - k + 1, W - k + 1],
                    data = tabulate4 N (out_channels L) (H - k + 1) (W - k + 1)
                      (\<lambda>n oc i j. conv_bias L ! oc +
                         (\<Sum>c\<leftarrow>[0..<C]. \<Sum>di\<leftarrow>[0..<k]. \<Sum>dj\<leftarrow>[0..<k].
                            conv_weight L ! idx4 C k k oc c di dj *
                            data x ! idx4 C H W n c (i + di) (j + dj)))\<rparr>
          else Inl RuntimeError
      | _ \<Rightarrow> Inl RuntimeError)"

text \<open>
  \<open>F.max_pool2d(x, k)\<close>: windows of size \<open>k\<close>, stride \<open>k\<close>, no padding, output sizes
  rounded down.
\<close>

definition max_pool2d :: "tensor \<Rightarrow> nat \<Rightarrow> py_error + tensor" where
  "max_pool2d x k =
     (case shape x of
        [N, C, H, W] \<Rightarrow>
          if 0 < k \<and> k \<le> H \<and> k \<le> W
          then Inr \<lparr>shape = [N, C, (H - k) div k + 1, (W - k) div k + 1],
                    data = tabulate4 N C ((H - k) div k + 1) ((W - k) div k + 1)
                      (\<lambda>n c i j.
                         let ws = concat (map (\<lambda>di. map (\<lambda>dj.
                                    data x ! idx4 C H W n c (i * k + di) (j * k + dj))
                                    [0..<k]) [0..<k])
                         in fold max (tl ws) (hd ws))\<rparr>
          else Inl RuntimeError
      | _ \<Rightarrow> Inl RuntimeError)"

text \<open>
  \<open>x.view(-1, c)\<close>: the same elements in rows of \<open>c\<close>; the number of rows is inferred from
  the number of elements, which has to be a multiple of \<open>c\<close>. With \<open>c = 0\<close> the row count
  cannot be inferred and the framework raises.
\<close>

definition view_rows :: "tensor \<Rightarrow> nat \<Rightarrow> py_error + tensor" where
  "view_rows x c =
     (let numel = prod_list (shape x) in
      if 0 < c \<and> c dvd numel
      then Inr \<lparr>shape = [numel div c, c], data = data x\<rparr>
      else Inl RuntimeError)"

text \<open>
  \<open>F.dropout(x, training=t)\<close> with the default probability \<open>0.5\<close>: in training mode each
  element is kept and scaled by \<open>1 / (1 - 0.5)\<close>, or zeroed; \<open>keep\<close> stands for the random
  draws. Outside training mode it is the identity.
\<close>

definition dropout :: "(nat \<Rightarrow> bool) \<Rightarrow> bool \<Rightarrow> tensor \<Rightarrow> tensor" where
  "dropout keep t x =
     (if t then x\<lparr>data := map (\<lambda>i. if keep i then data x ! i / (1 - 1 / 2) else 0)
                              [0..<length (data x)]\<rparr>
      else x)"

subsection \<open>The network\<close>

record Net =
  conv1 :: Conv2d
  conv2 :: Conv2d
  net_fc1 :: Linear
  net_fc2 :: Linear
  net_training :: bool

definition Net_forward_src :: "string list" where
  "Net_forward_src =
     [''    def forward(self, x): # The function for forward evaluation'',
      ''        x = F.relu(F.max_pool2d(self.conv1(x), 2))'',
      ''        x = F.relu(F.max_pool2d(self.conv2(x), 2))'',
      ''        x = x.view(-1, 320)'',
      ''        x = F.relu(self.fc1(x))'',
      ''        x = F.dropout(x, training=self.training)'',
      ''        x = self.fc2(x)'',
      ''        return x'',
      ''    '']"

definition Net_init :: "(nat \<Rightarrow> nat \<Rightarrow> real) \<Rightarrow> (nat \<Rightarrow> nat \<Rightarrow> real) \<Rightarrow> Net" where
  "Net_init w b =
     \<lparr>conv1 = nn_Conv2d 1 10 5 (w 0) (b 0),
      conv2 = nn_Conv2d 10 20 5 (w 1) (b 1),
      net_fc1 = nn_Linear 320 50 (w 2) (b 2),
      net_fc2 = nn_Linear 50 10 (w 3) (b 3),
      net_training = True\<rparr>"

definition wf_Net :: "Net \<Rightarrow> bool" where
  "wf_Net m =
     (wf_Conv2d 1 10 5 (conv1 m) \<and> wf_Conv2d 10 20 5 (conv2 m) \<and>
      wf_Linear 320 50 (net_fc1 m) \<and> wf_Linear 50 10 (net_fc2 m))"

definition Net_forward :: "Net \<Rightarrow> (nat \<Rightarrow> bool) \<Rightarrow> tensor \<Rightarrow> py_error + tensor" where
  "Net_forward self keep x =
     (case Conv2d_forward (conv1 self) x of Inl e \<Rightarrow> Inl e | Inr c1 \<Rightarrow>
     (case max_pool2d c1 2 of Inl e \<Rightarrow> Inl e | Inr p1 \<Rightarrow>
     (case Conv2d_forward (conv2 self) (relu p1) of Inl e \<Rightarrow> Inl e | Inr c2 \<Rightarrow>
     (case max_pool2d c2 2 of Inl e \<Rightarrow> Inl e | Inr p2 \<Rightarrow>
     (case view_rows (relu p2) 320 of Inl e \<Rightarrow> Inl e | Inr v \<Rightarrow>
     (case Linear_forward (net_fc1 self) v of Inl e \<Rightarrow> Inl e | Inr f1 \<Rightarrow>
        Linear_forward (net_fc2 self) (dropout keep (net_training self) (relu f1))))))))"

section \<open>Concrete models and inputs\<close>

text \<open>The parameters an optimizer would be given: the five layers of the model.\<close>

definition parameters :: "VAE \<Rightarrow> Linear list" where
  "parameters m = [fc1 m, fc21 m, fc22 m, fc3 m, fc4 m]"

text \<open>A model and a network whose initial values are all zero, and dropout draws that keep
  every element.\<close>

definition vae0 :: VAE where
  "vae0 = VAE_init (\<lambda>l i. 0) (\<lambda>l i. 0)"

definition net0 :: Net where
  "net0 = Net_init (\<lambda>l i. 0) (\<lambda>l i. 0)"

definition keep_all :: "nat \<Rightarrow> bool" where
  "keep_all i = True"


section \<open>Which definitions Python accepts\<close>

lemma compile_VAE_cell: "compile_src 0 VAE_cell_src = Inl SyntaxError"
  by code_simp

lemma compile_reparameterize: "compile_src 4 VAE_reparameterize_src = Inl SyntaxError"
  by code_simp

lemma compile_loss_function: "compile_src 0 loss_function_src = Inl SyntaxError"
  by code_simp


lemma compile_train_test_cell: "compile_src 0 train_test_cell_src = Inl SyntaxError"
  by code_simp

text \<open>The definitions whose bodies are written out are accepted.\<close>

lemma compile_init: "compile_src 4 VAE_init_src = Inr ()"
  by code_simp

lemma compile_encode: "compile_src 4 VAE_encode_src = Inr ()"
  by code_simp

lemma compile_decode: "compile_src 4 VAE_decode_src = Inr ()"
  by code_simp

lemma compile_forward: "compile_src 4 VAE_forward_src = Inr ()"
  by code_simp

lemma compile_Net_forward: "compile_src 4 Net_forward_src = Inr ()"
  by code_simp

section \<open>The placeholders of the autoencoder notebook\<close>

lemma VAE_reparameterize_raises: "VAE_reparameterize self mu logvar = Inl SyntaxError"
  by (simp add: VAE_reparameterize_def py_def_def compile_reparameterize)

lemma loss_function_raises: "loss_function recon x mu logvar = Inl SyntaxError"
  by (simp add: loss_function_def py_def_def compile_loss_function)

lemma VAE_forward_raises: "VAE_forward notebook_globals self x = Inl (NameError ''recon'')"
  by (simp add: VAE_forward_def lookup_name_def notebook_globals_def)

text \<open>
  Claim C1 says that \<open>reparameterize(mu, logvar)\<close> returns \<open>mu + exp(0.5 * logvar) * eps\<close>
  for standard-normal noise \<open>eps\<close>. At \<open>mu = [0]\<close> and \<open>logvar = [0]\<close> that value is
  \<open>[0 + exp 0 * eps] = [eps]\<close>, for the noise \<open>eps = 1\<close> the tensor \<open>[1]\<close>; the call does
  not return it.
\<close>

theorem reparameterize_formula_counterexample:
  "VAE_reparameterize vae0 \<lparr>shape = [1], data = [0]\<rparr> \<lparr>shape = [1], data = [0]\<rparr> \<noteq>
   Inr (Some \<lparr>shape = [1], data = [1]\<rparr>)"
  by (simp add: VAE_reparameterize_raises)

text \<open>
  Claim C1, amended: \<open>reparameterize\<close> is a placeholder whose body holds only a \<open>TODO\<close>
  comment. It takes no noise and draws none, and for every \<open>mu\<close> and \<open>logvar\<close> the call
  returns no sample: the definition is rejected with a syntax error.
\<close>

theorem reparameterize_unimplemented:
  "VAE_reparameterize self mu logvar = Inl SyntaxError"
  by (rule VAE_reparameterize_raises)

text \<open>
  Claim C2 says that \<open>loss_function(recon, x, mu, logvar)\<close> returns the negative evidence
  lower bound of the batch. On a batch of one point with one input and one latent
  dimension, all zero, it returns no number.
\<close>

theorem loss_function_counterexample:
  "loss_function \<lparr>shape = [1, 1], data = [0]\<rparr> \<lparr>shape = [1, 1], data = [0]\<rparr>
                 \<lparr>shape = [1, 1], data = [0]\<rparr> \<lparr>shape = [1, 1], data = [0]\<rparr> = Inl SyntaxError"
  by (rule loss_function_raises)

text \<open>
  Claim C2, amended: \<open>loss_function\<close> is a placeholder whose body holds only comments. For
  every reconstruction, input, mean and log-variance the call returns no loss: the
  definition is rejected with a syntax error.
\<close>

theorem loss_function_unimplemented:
  "loss_function recon x mu logvar = Inl SyntaxError"
  by (simp add: loss_function_def py_def_def compile_loss_function)

text \<open>
  Claim C10: calling \<open>forward\<close> never returns normally. The cell that defines the class is
  rejected, because \<open>reparameterize\<close> has no statement; and the one statement of \<open>forward\<close>
  returns names that neither the call nor the notebook binds, so that for every model and
  input the call raises \<open>NameError\<close> at the first of them.
\<close>

theorem VAE_forward_never_returns:
  "compile_src 0 VAE_cell_src = Inl SyntaxError \<and>
   compile_src 4 VAE_reparameterize_src = Inl SyntaxError \<and>
   VAE_forward notebook_globals self x = Inl (NameError ''recon'')"
  using compile_VAE_cell compile_reparameterize VAE_forward_raises by simp

section \<open>The placeholder of the evaluation\<close>




section \<open>The closed-form KL term and the sampling formula\<close>

lemma sum_list_all_zero:
  "(\<And>x. x \<in> set xs \<Longrightarrow> f x = (0::real)) \<Longrightarrow> sum_list (map f xs) = 0"
  by (induction xs) simp_all

lemma kl_sum_nonpos: "(\<Sum>(m, l)\<leftarrow>zip mu logvar. 1 + l - exp l - m\<^sup>2) \<le> (0::real)"
proof (induction mu arbitrary: logvar)
  case Nil
  then show ?case by simp
next
  case (Cons m mu)
  show ?case
  proof (cases logvar)
    case Nil
    then show ?thesis by simp
  next
    case lv: (Cons l lv)
    have "1 + l \<le> exp l" by (rule exp_ge_add_one_self)
    moreover have "0 \<le> m\<^sup>2" by simp
    ultimately have "1 + l - exp l - m\<^sup>2 \<le> 0" by linarith
    with Cons.IH [of lv] have
      "1 + l - exp l - m\<^sup>2 + (\<Sum>(m, l)\<leftarrow>zip mu lv. 1 + l - exp l - m\<^sup>2) \<le> 0"
      by linarith
    with lv show ?thesis by simp
  qed
qed

text \<open>The spec's term is the one of the notebook's theory cell, at \<open>h = exp(\<onehalf>\<cdot>logvar)\<close>.\<close>

lemma exp_half_squared: "(exp (l / 2))\<^sup>2 = exp (l::real)"
  using exp_double [of "l / 2"] by simp

lemma kl_term_notebook: "kl_term mu logvar = kl_notebook mu (map (\<lambda>l. exp (l / 2)) logvar)"
proof -
  have "(\<Sum>(gj, hj)\<leftarrow>zip mu (map (\<lambda>l. exp (l / 2)) logvar). 1 + ln (hj\<^sup>2) - hj\<^sup>2 - gj\<^sup>2) =
        (\<Sum>(m, l)\<leftarrow>zip mu logvar. 1 + l - exp l - m\<^sup>2)"
    by (simp add: zip_map2 comp_def case_prod_unfold exp_half_squared)
  then show ?thesis by (simp add: kl_term_def kl_notebook_def)
qed

text \<open>The term is a divergence: it is never negative.\<close>

lemma kl_term_nonneg: "0 \<le> kl_term mu logvar"
  using kl_sum_nonpos [of mu logvar] by (simp add: kl_term_def)

text \<open>
  Claim C4: when the approximate posterior is the standard-normal prior, that is when in
  every latent dimension the mean is 0 and the log-variance is 0, the closed-form KL term
  is exactly zero.
\<close>

theorem kl_term_prior_zero:
  assumes "\<forall>m\<in>set mu. m = 0" and "\<forall>l\<in>set logvar. l = 0"
  shows "kl_term mu logvar = 0"
proof -
  have "(\<Sum>(m, l)\<leftarrow>zip mu logvar. 1 + l - exp l - m\<^sup>2) = 0"
  proof (rule sum_list_all_zero)
    fix p
    assume mem: "p \<in> set (zip mu logvar)"
    obtain m l where p: "p = (m, l)" by (cases p)
    from mem p have "m \<in> set mu" and "l \<in> set logvar"
      by (auto dest: set_zip_leftD set_zip_rightD)
    with assms have "m = 0" and "l = 0" by auto
    with p show "(case p of (m, l) \<Rightarrow> 1 + l - exp l - m\<^sup>2) = 0"
      by simp
  qed
  then show ?thesis by (simp add: kl_term_def)
qed

theorem kl_term_prior_zero_witness: "kl_term [0, 0, 0] [0, 0, 0] = 0"
  using kl_term_prior_zero [of "[0, 0, 0]" "[0, 0, 0]"] by simp

lemma sample_zero_noise:
  "length ms = n \<Longrightarrow> length ls = n \<Longrightarrow>
   map (\<lambda>(m, l, e). m + exp (l / 2) * e) (zip ms (zip ls (replicate n (0::real)))) = ms"
  by (induction ms arbitrary: ls n) (auto simp: length_Suc_conv)

text \<open>
  Claim C5 says that with zero noise \<open>reparameterize(mu, logvar)\<close> returns exactly \<open>mu\<close>.
  At \<open>mu = [1, 2]\<close> and \<open>logvar = [0, 3]\<close> the call does not return \<open>mu\<close>.
\<close>

theorem reparameterize_zero_noise_counterexample:
  "VAE_reparameterize vae0 \<lparr>shape = [2], data = [1, 2]\<rparr> \<lparr>shape = [2], data = [0, 3]\<rparr> \<noteq>
   Inr (Some \<lparr>shape = [2], data = [1, 2]\<rparr>)"
  by (simp add: VAE_reparameterize_raises)

text \<open>
  Claim C5, amended: \<open>reparameterize\<close> as written takes no noise and returns \<open>mu\<close> for no
  input; the sampling formula it is meant to implement, \<open>mu + exp(\<onehalf>\<cdot>logvar) \<cdot> eps\<close>, gives
  exactly \<open>mu\<close> when \<open>eps\<close> is the zero tensor, for \<open>mu\<close> and \<open>logvar\<close> of the same shape.
\<close>

theorem zero_noise_sample:
  "VAE_reparameterize self mu logvar \<noteq> Inr (Some mu) \<and>
   (wf_tensor mu \<and> wf_tensor logvar \<and> shape logvar = shape mu \<longrightarrow>
      sample_formula mu logvar (zeros (shape mu)) = mu)"
  by (simp add: VAE_reparameterize_raises sample_formula_def zeros_def wf_tensor_def
      sample_zero_noise)

theorem zero_noise_sample_witness:
  "sample_formula \<lparr>shape = [2], data = [1, 2]\<rparr> \<lparr>shape = [2], data = [0, 3]\<rparr> (zeros [2]) =
   \<lparr>shape = [2], data = [1, 2]\<rparr>"
  using zero_noise_sample [of vae0 "\<lparr>shape = [2], data = [1, 2]\<rparr>" "\<lparr>shape = [2], data = [0, 3]\<rparr>"]
  by (simp add: wf_tensor_def)

section \<open>Shapes through the linear layers\<close>

lemma length_chunks: "length (chunks k xs) = length xs div k"
  by (simp add: chunks_def)

lemma length_concat_const:
  "(\<And>x. x \<in> set xs \<Longrightarrow> length (f x) = k) \<Longrightarrow> length (concat (map f xs)) = length xs * k"
  by (induction xs) simp_all

lemma wf_nn_Linear: "0 < n_in \<Longrightarrow> wf_Linear n_in n_out (nn_Linear n_in n_out w b)"
  by (simp add: wf_Linear_def nn_Linear_def)

lemma wf_VAE_init: "wf_VAE (VAE_init w b)"
  by (simp add: wf_VAE_def VAE_init_def wf_nn_Linear)

lemma length_affine:
  assumes "wf_Linear n_in n_out L"
  shows "length (affine L v) = n_out"
proof -
  from assms have "length (chunks (in_features L) (weight L)) = n_out"
    by (simp add: length_chunks wf_Linear_def)
  with assms show ?thesis
    by (simp add: affine_def wf_Linear_def)
qed

lemma Linear_forward_accepts:
  "wf_Linear n_in n_out L \<Longrightarrow>
   (\<exists>y. Linear_forward L x = Inr y) \<longleftrightarrow> (shape x \<noteq> [] \<and> last (shape x) = n_in)"
  by (auto simp: Linear_forward_def wf_Linear_def)

lemma Linear_forward_shape:
  "wf_Linear n_in n_out L \<Longrightarrow> Linear_forward L x = Inr y \<Longrightarrow>
   shape x \<noteq> [] \<and> last (shape x) = n_in \<and> shape y = butlast (shape x) @ [n_out]"
  by (auto simp: Linear_forward_def wf_Linear_def split: if_splits)

lemma prod_list_butlast:
  "s \<noteq> [] \<Longrightarrow> prod_list (butlast s) * last s = prod_list (s::nat list)"
  by (induction s) auto

lemma Linear_forward_wf:
  assumes L: "wf_Linear n_in n_out L" and x: "wf_tensor x" and y: "Linear_forward L x = Inr y"
  shows "wf_tensor y"
proof -
  from Linear_forward_shape [OF L y] have s: "shape x \<noteq> []" "last (shape x) = n_in"
    and sy: "shape y = butlast (shape x) @ [n_out]" by simp_all
  from L have pos: "0 < n_in" and inf: "in_features L = n_in" by (simp_all add: wf_Linear_def)
  from x s have "length (data x) = prod_list (butlast (shape x)) * n_in"
    using prod_list_butlast [of "shape x"] by (simp add: wf_tensor_def)
  with pos have rows: "length (data x) div n_in = prod_list (butlast (shape x))" by simp
  from y s inf have "data y = concat (map (affine L) (chunks n_in (data x)))"
    by (auto simp: Linear_forward_def)
  then have "length (data y) = length (chunks n_in (data x)) * n_out"
    by (simp add: length_concat_const length_affine [OF L])
  with rows sy show ?thesis
    by (simp add: wf_tensor_def length_chunks)
qed

lemma shape_relu [simp]: "shape (relu t) = shape t"
  by (simp add: relu_def)

lemma shape_sigmoid [simp]: "shape (sigmoid t) = shape t"
  by (simp add: sigmoid_def)

lemma wf_relu [simp]: "wf_tensor (relu t) = wf_tensor t"
  by (simp add: relu_def wf_tensor_def)

lemma wf_sigmoid [simp]: "wf_tensor (sigmoid t) = wf_tensor t"
  by (simp add: sigmoid_def wf_tensor_def)


section \<open>The encoder and the decoder\<close>

text \<open>\<open>encode\<close> accepts exactly the inputs whose last dimension is 784.\<close>

lemma VAE_encode_accepts:
  assumes "wf_VAE m"
  shows "(\<exists>mu logvar. VAE_encode m x = Inr (mu, logvar)) \<longleftrightarrow> (shape x \<noteq> [] \<and> last (shape x) = 784)"
proof
  assume "\<exists>mu logvar. VAE_encode m x = Inr (mu, logvar)"
  then obtain a where "Linear_forward (fc1 m) x = Inr a"
    by (auto simp: VAE_encode_def split: sum.splits)
  with assms show "shape x \<noteq> [] \<and> last (shape x) = 784"
    using Linear_forward_shape [of 784 400 "fc1 m" x a] by (simp add: wf_VAE_def)
next
  assume sx: "shape x \<noteq> [] \<and> last (shape x) = 784"
  from assms have L1: "wf_Linear 784 400 (fc1 m)" and L21: "wf_Linear 400 20 (fc21 m)"
    and L22: "wf_Linear 400 20 (fc22 m)" by (simp_all add: wf_VAE_def)
  from sx Linear_forward_accepts [OF L1, of x] obtain a where a: "Linear_forward (fc1 m) x = Inr a"
    by blast
  from Linear_forward_shape [OF L1 a] have sa: "shape (relu a) \<noteq> [] \<and> last (shape (relu a)) = 400"
    by simp
  from sa Linear_forward_accepts [OF L21, of "relu a"] obtain mu where
    mu: "Linear_forward (fc21 m) (relu a) = Inr mu" by blast
  from sa Linear_forward_accepts [OF L22, of "relu a"] obtain lv where
    lv: "Linear_forward (fc22 m) (relu a) = Inr lv" by blast
  from a mu lv show "\<exists>mu logvar. VAE_encode m x = Inr (mu, logvar)"
    by (simp add: VAE_encode_def)
qed

lemma VAE_encode_shape:
  assumes m: "wf_VAE m" and enc: "VAE_encode m x = Inr (mu, logvar)"
  shows "shape mu = butlast (shape x) @ [20] \<and> shape logvar = butlast (shape x) @ [20] \<and>
         (wf_tensor x \<longrightarrow> wf_tensor mu \<and> wf_tensor logvar)"
proof -
  from m have L1: "wf_Linear 784 400 (fc1 m)" and L21: "wf_Linear 400 20 (fc21 m)"
    and L22: "wf_Linear 400 20 (fc22 m)" by (simp_all add: wf_VAE_def)
  from enc obtain a where a: "Linear_forward (fc1 m) x = Inr a"
    and mu: "Linear_forward (fc21 m) (relu a) = Inr mu"
    and lv: "Linear_forward (fc22 m) (relu a) = Inr logvar"
    by (auto simp: VAE_encode_def Let_def split: sum.splits)
  from Linear_forward_shape [OF L1 a] have sx: "shape x \<noteq> []"
    and sa: "shape (relu a) = butlast (shape x) @ [400]" by simp_all
  from Linear_forward_shape [OF L21 mu] sa sx have smu: "shape mu = butlast (shape x) @ [20]"
    by simp
  from Linear_forward_shape [OF L22 lv] sa sx have slv: "shape logvar = butlast (shape x) @ [20]"
    by simp
  have "wf_tensor mu \<and> wf_tensor logvar" if "wf_tensor x"
  proof -
    from that Linear_forward_wf [OF L1 _ a] have "wf_tensor (relu a)" by simp
    then show ?thesis
      using Linear_forward_wf [OF L21 _ mu] Linear_forward_wf [OF L22 _ lv] by simp
  qed
  with smu slv show ?thesis by simp
qed

text \<open>
  Claim C7: for every input that \<open>encode\<close> accepts, the posterior mean and the posterior
  log-variance it returns have the same shape, whose last dimension is 20, the output size
  of \<open>fc21\<close> and \<open>fc22\<close>: an input vector gives two vectors of dimension 20, a batch of
  vectors one such pair per row. The elements returned fill those shapes.
\<close>

theorem encode_latent_dimension:
  assumes "wf_VAE m" and "VAE_encode m x = Inr (mu, logvar)"
  shows "shape mu = shape logvar \<and> last (shape mu) = 20 \<and> last (shape logvar) = 20 \<and>
         shape mu = butlast (shape x) @ [20] \<and>
         (wf_tensor x \<longrightarrow> wf_tensor mu \<and> wf_tensor logvar)"
  using VAE_encode_shape [OF assms] by simp

theorem encode_latent_dimension_witness:
  "\<exists>mu logvar. VAE_encode vae0 (zeros [784]) = Inr (mu, logvar) \<and>
     shape mu = [20] \<and> shape logvar = [20] \<and> wf_tensor mu \<and> wf_tensor logvar"
proof -
  have wf: "wf_VAE vae0" by (simp add: vae0_def wf_VAE_init)
  have "shape (zeros [784]) \<noteq> [] \<and> last (shape (zeros [784])) = 784"
    by (simp add: zeros_def)
  with VAE_encode_accepts [OF wf, of "zeros [784]"] obtain mu logvar where
    enc: "VAE_encode vae0 (zeros [784]) = Inr (mu, logvar)" by blast
  have "wf_tensor (zeros [784])" by (simp add: zeros_def wf_tensor_def)
  with encode_latent_dimension [OF wf enc] enc show ?thesis
    by (auto simp: zeros_def)
qed

lemma VAE_decode_accepts:
  assumes "wf_VAE m" and "shape z \<noteq> []" and "last (shape z) = 20"
  shows "\<exists>r. VAE_decode m z = Inr r \<and> shape r = butlast (shape z) @ [784] \<and>
             (wf_tensor z \<longrightarrow> wf_tensor r)"
proof -
  from assms(1) have L3: "wf_Linear 20 400 (fc3 m)" and L4: "wf_Linear 400 784 (fc4 m)"
    by (simp_all add: wf_VAE_def)
  from assms(2,3) Linear_forward_accepts [OF L3, of z] obtain a where
    a: "Linear_forward (fc3 m) z = Inr a" by blast
  from Linear_forward_shape [OF L3 a] have sa: "shape (relu a) = butlast (shape z) @ [400]"
    by simp
  then have "shape (relu a) \<noteq> [] \<and> last (shape (relu a)) = 400" by simp
  with Linear_forward_accepts [OF L4, of "relu a"] obtain b where
    b: "Linear_forward (fc4 m) (relu a) = Inr b" by blast
  from Linear_forward_shape [OF L4 b] sa assms(2) have sb: "shape b = butlast (shape z) @ [784]"
    by simp
  have "wf_tensor (sigmoid b)" if "wf_tensor z"
  proof -
    from that Linear_forward_wf [OF L3 _ a] have "wf_tensor (relu a)" by simp
    with Linear_forward_wf [OF L4 _ b] show ?thesis by simp
  qed
  with a b sb show ?thesis by (simp add: VAE_decode_def)
qed

text \<open>
  Claim C3 says that the reconstruction returned by \<open>forward(x)\<close> has the shape of \<open>x\<close>.
  On the zero vector of dimension 784 \<open>forward\<close> returns no reconstruction.
\<close>

theorem forward_shape_counterexample:
  "VAE_forward notebook_globals vae0 (zeros [784]) = Inl (NameError ''recon'')"
  by (rule VAE_forward_raises)

text \<open>
  Claim C3, amended: \<open>forward\<close> is a placeholder that returns no reconstruction; the two
  steps it is meant to chain keep the shape. For every input \<open>x\<close> that \<open>encode\<close> accepts,
  of last dimension 784, \<open>decode\<close> applied to any latent tensor of the shape of the
  posterior mean returns a reconstruction mean of the shape of \<open>x\<close>.
\<close>

theorem decode_restores_input_shape:
  assumes m: "wf_VAE m" and enc: "VAE_encode m x = Inr (mu, logvar)" and z: "shape z = shape mu"
  shows "\<exists>recon. VAE_decode m z = Inr recon \<and> shape recon = shape x \<and> last (shape x) = 784 \<and>
           (wf_tensor z \<longrightarrow> wf_tensor recon)"
proof -
  from VAE_encode_accepts [OF m, of x] enc have sx: "shape x \<noteq> []" "last (shape x) = 784"
    by auto
  from VAE_encode_shape [OF m enc] z sx have "shape z \<noteq> []" and "last (shape z) = 20"
    and "butlast (shape z) = butlast (shape x)" by simp_all
  moreover from sx have "butlast (shape x) @ [784] = shape x"
    using append_butlast_last_id [of "shape x"] by simp
  ultimately show ?thesis
    using VAE_decode_accepts [OF m, of z] sx by auto
qed

theorem decode_restores_input_shape_witness:
  "\<exists>mu logvar recon. VAE_encode vae0 (zeros [784]) = Inr (mu, logvar) \<and>
     VAE_decode vae0 (zeros [20]) = Inr recon \<and> shape recon = [784] \<and> wf_tensor recon"
proof -
  have wf: "wf_VAE vae0" by (simp add: vae0_def wf_VAE_init)
  have "shape (zeros [784]) \<noteq> [] \<and> last (shape (zeros [784])) = 784"
    by (simp add: zeros_def)
  with VAE_encode_accepts [OF wf, of "zeros [784]"] obtain mu logvar where
    enc: "VAE_encode vae0 (zeros [784]) = Inr (mu, logvar)" by blast
  from VAE_encode_shape [OF wf enc] have "shape (zeros [20]) = shape mu"
    by (simp add: zeros_def)
  from decode_restores_input_shape [OF wf enc this] enc show ?thesis
    by (auto simp: zeros_def wf_tensor_def)
qed

text \<open>
  Claim C6: \<open>encode\<close> and \<open>decode\<close> are deterministic given the parameters. Two runs on
  models that hold the same weights and biases, whatever else differs between them (the
  training flag), return the same mean and log-variance for the same input and the same
  reconstruction mean for the same latent tensor. Neither method draws noise.
\<close>

theorem encode_decode_deterministic:
  assumes "parameters m1 = parameters m2"
  shows "VAE_encode m1 x = VAE_encode m2 x \<and> VAE_decode m1 z = VAE_decode m2 z"
proof -
  from assms have "fc1 m1 = fc1 m2" and "fc21 m1 = fc21 m2" and "fc22 m1 = fc22 m2"
    and "fc3 m1 = fc3 m2" and "fc4 m1 = fc4 m2"
    by (simp_all add: parameters_def)
  then show ?thesis
    by (simp add: VAE_encode_def VAE_decode_def cong: sum.case_cong)
qed

theorem encode_decode_deterministic_witness:
  "VAE_encode vae0 (zeros [784]) = VAE_encode (vae0\<lparr>training := False\<rparr>) (zeros [784]) \<and>
   VAE_decode vae0 (zeros [20]) = VAE_decode (vae0\<lparr>training := False\<rparr>) (zeros [20])"
  using encode_decode_deterministic [of vae0 "vae0\<lparr>training := False\<rparr>"]
  by (simp add: parameters_def)

section \<open>The classifier network\<close>

lemma length_tabulate4: "length (tabulate4 N C H W f) = N * C * H * W"
proof -
  have row: "length (concat (map (\<lambda>i. map (\<lambda>j. f n c i j) [0..<W]) [0..<H])) = H * W" for n c
    by (simp add: length_concat_const [where k = W])
  have chan: "length (concat (map (\<lambda>c. concat (map (\<lambda>i. map (\<lambda>j. f n c i j) [0..<W]) [0..<H]))
                [0..<C])) = C * (H * W)" for n
    by (simp add: length_concat_const [where k = "H * W"] row)
  show ?thesis
    unfolding tabulate4_def
    by (simp add: length_concat_const [where k = "C * (H * W)"] chan mult.assoc)
qed

lemma wf_tabulate4: "wf_tensor \<lparr>shape = [N, C, H, W], data = tabulate4 N C H W f\<rparr>"
  by (simp add: wf_tensor_def length_tabulate4 mult.assoc)

lemma wf_nn_Conv2d: "wf_Conv2d c_in c_out k (nn_Conv2d c_in c_out k w b)"
  by (simp add: wf_Conv2d_def nn_Conv2d_def)

lemma wf_Net_init: "wf_Net (Net_init w b)"
  by (simp add: wf_Net_def Net_init_def wf_nn_Conv2d wf_nn_Linear)

lemma Conv2d_forward_shape:
  assumes "wf_Conv2d c_in c_out k L" and "shape x = [N, c_in, H, W]" and "k \<le> H" and "k \<le> W"
  shows "\<exists>y. Conv2d_forward L x = Inr y \<and> shape y = [N, c_out, H - k + 1, W - k + 1] \<and>
             wf_tensor y"
  using assms
  by (simp add: Conv2d_forward_def wf_Conv2d_def Let_def wf_tabulate4)

lemma max_pool2d_shape:
  assumes "shape x = [N, C, H, W]" and "0 < k" and "k \<le> H" and "k \<le> W"
  shows "\<exists>y. max_pool2d x k = Inr y \<and> shape y = [N, C, (H - k) div k + 1, (W - k) div k + 1] \<and>
             wf_tensor y"
  using assms
  by (simp add: max_pool2d_def wf_tabulate4)

lemma view_rows_shape:
  assumes "prod_list (shape x) = n * c" and "0 < c"
  shows "view_rows x c = Inr \<lparr>shape = [n, c], data = data x\<rparr>"
  using assms by (simp add: view_rows_def Let_def)

lemma shape_dropout [simp]: "shape (dropout keep t x) = shape x"
  by (simp add: dropout_def)

lemma wf_dropout [simp]: "wf_tensor (dropout keep t x) = wf_tensor x"
  by (simp add: dropout_def wf_tensor_def)

lemma Net_forward_trace:
  assumes m: "wf_Net m" and x: "shape x = [N, 1, 28, 28]"
  shows "\<exists>c1 p1 c2 p2 v f1 out.
           Conv2d_forward (conv1 m) x = Inr c1 \<and> shape c1 = [N, 10, 24, 24] \<and>
           max_pool2d c1 2 = Inr p1 \<and> shape p1 = [N, 10, 12, 12] \<and>
           Conv2d_forward (conv2 m) (relu p1) = Inr c2 \<and> shape c2 = [N, 20, 8, 8] \<and>
           max_pool2d c2 2 = Inr p2 \<and> shape p2 = [N, 20, 4, 4] \<and>
           view_rows (relu p2) 320 = Inr v \<and> shape v = [N, 320] \<and>
           Linear_forward (net_fc1 m) v = Inr f1 \<and> shape f1 = [N, 50] \<and>
           Linear_forward (net_fc2 m) (dropout keep (net_training m) (relu f1)) = Inr out \<and>
           Net_forward m keep x = Inr out \<and> shape out = [N, 10] \<and> wf_tensor out"
proof -
  from m have C1: "wf_Conv2d 1 10 5 (conv1 m)" and C2: "wf_Conv2d 10 20 5 (conv2 m)"
    and L1: "wf_Linear 320 50 (net_fc1 m)" and L2: "wf_Linear 50 10 (net_fc2 m)"
    by (simp_all add: wf_Net_def)
  from Conv2d_forward_shape [OF C1 x] obtain c1 where
    c1: "Conv2d_forward (conv1 m) x = Inr c1" and sc1: "shape c1 = [N, 10, 24, 24]"
    by auto
  from max_pool2d_shape [OF sc1, of 2] obtain p1 where
    p1: "max_pool2d c1 2 = Inr p1" and sp1: "shape p1 = [N, 10, 12, 12]"
    by auto
  from sp1 have "shape (relu p1) = [N, 10, 12, 12]" by simp
  from Conv2d_forward_shape [OF C2 this] obtain c2 where
    c2: "Conv2d_forward (conv2 m) (relu p1) = Inr c2" and sc2: "shape c2 = [N, 20, 8, 8]"
    by auto
  from max_pool2d_shape [OF sc2, of 2] obtain p2 where
    p2: "max_pool2d c2 2 = Inr p2" and sp2: "shape p2 = [N, 20, 4, 4]" and wp2: "wf_tensor p2"
    by auto
  define v where "v = \<lparr>shape = [N, 320], data = data (relu p2)\<rparr>"
  from sp2 have v: "view_rows (relu p2) 320 = Inr v"
    unfolding v_def by (intro view_rows_shape) simp_all
  have sv: "shape v = [N, 320]" by (simp add: v_def)
  from wp2 sp2 have wv: "wf_tensor v" by (simp add: v_def wf_tensor_def relu_def)
  from Linear_forward_accepts [OF L1, of v] sv obtain f1 where
    f1: "Linear_forward (net_fc1 m) v = Inr f1" by auto
  from Linear_forward_shape [OF L1 f1] sv have sf1: "shape f1 = [N, 50]" by simp
  from Linear_forward_wf [OF L1 wv f1] have wf1: "wf_tensor f1" .
  let ?d = "dropout keep (net_training m) (relu f1)"
  from sf1 have sd: "shape ?d = [N, 50]" by simp
  from Linear_forward_accepts [OF L2, of ?d] sd obtain out where
    out: "Linear_forward (net_fc2 m) ?d = Inr out" by auto
  from Linear_forward_shape [OF L2 out] sd have so: "shape out = [N, 10]" by simp
  from wf1 have "wf_tensor ?d" by simp
  from Linear_forward_wf [OF L2 this out] have wo: "wf_tensor out" .
  from c1 p1 c2 p2 v f1 out have "Net_forward m keep x = Inr out"
    by (simp add: Net_forward_def)
  with c1 sc1 p1 sp1 c2 sc2 p2 sp2 v sv f1 sf1 out so wo show ?thesis
    by blast
qed


text \<open>
  Every element that the convolution and the pooling read lies inside the tensor they read
  it from.
\<close>

lemma mixed_radix: "a < A \<Longrightarrow> b < B \<Longrightarrow> a * B + b < A * (B::nat)"
proof -
  assume a: "a < A" and b: "b < B"
  from a have "Suc a \<le> A" by simp
  then have "Suc a * B \<le> A * B" by (rule mult_le_mono1)
  with b show ?thesis by simp
qed

lemma idx4_in_range:
  assumes "n < N" and "c < C" and "i < H" and "j < W"
  shows "idx4 C H W n c i j < N * C * H * W"
  unfolding idx4_def
  by (intro mixed_radix assms)

lemma conv_window_in_range:
  assumes "i < H - k + 1" and "di < k" and "k \<le> H"
  shows "i + di < (H::nat)"
  using assms by linarith

lemma pool_window_in_range:
  assumes "i < (H - k) div k + 1" and "di < k" and "k \<le> H"
  shows "i * k + di < (H::nat)"
proof -
  from assms(1) have "i \<le> (H - k) div k" by simp
  then have "i * k \<le> (H - k) div k * k" by (rule mult_le_mono1)
  also have "\<dots> \<le> H - k" by simp
  finally show ?thesis using assms(2,3) by linarith
qed

text \<open>
  With all parameters zero the logits are all zero: the rows of the output do not sum to
  one, as the rows of a softmax would.
\<close>

lemma set_chunk: "r \<in> set (chunks k xs) \<Longrightarrow> set r \<subseteq> set xs"
  by (auto simp: chunks_def dest: in_set_takeD in_set_dropD)

lemma affine_zero:
  assumes w: "\<forall>a\<in>set (weight L). a = 0" and b: "\<forall>a\<in>set (bias L). a = 0"
    and y: "y \<in> set (affine L v)"
  shows "y = 0"
proof -
  from y obtain row c where rc: "(row, c) \<in> set (zip (chunks (in_features L) (weight L)) (bias L))"
    and yv: "y = sum_list (map2 (*) row v) + c"
    by (auto simp: affine_def)
  from rc have "row \<in> set (chunks (in_features L) (weight L))" and "c \<in> set (bias L)"
    by (auto dest: set_zip_leftD set_zip_rightD)
  with w b have row0: "\<forall>a\<in>set row. a = 0" and c0: "c = 0"
    using set_chunk by blast+
  have "sum_list (map2 (*) row v) = 0"
  proof (rule sum_list_all_zero)
    fix p
    assume mem: "p \<in> set (zip row v)"
    obtain a e where p: "p = (a, e)" by (cases p)
    from mem p have "a \<in> set row" by (auto dest: set_zip_leftD)
    with row0 p show "(case p of (a, e) \<Rightarrow> a * e) = 0" by simp
  qed
  with yv c0 show ?thesis by simp
qed

lemma Linear_forward_zero:
  assumes "\<forall>a\<in>set (weight L). a = 0" and "\<forall>a\<in>set (bias L). a = 0"
    and "Linear_forward L x = Inr y"
  shows "\<forall>a\<in>set (data y). a = 0"
  using assms(3) affine_zero [OF assms(1,2)]
  by (auto simp: Linear_forward_def split: if_splits)

lemma Net_forward_zero_logits:
  assumes "Net_forward net0 keep x = Inr out"
  shows "sum_list (data out) = 0"
proof -
  from assms obtain h where "Linear_forward (net_fc2 net0) h = Inr out"
    by (auto simp: Net_forward_def split: sum.splits)
  moreover have "\<forall>a\<in>set (weight (net_fc2 net0)). a = 0" "\<forall>a\<in>set (bias (net_fc2 net0)). a = 0"
    by (auto simp: net0_def Net_init_def nn_Linear_def)
  ultimately have "\<forall>a\<in>set (data out). a = 0"
    using Linear_forward_zero [of "net_fc2 net0" h out] by blast
  then show ?thesis
    using sum_list_all_zero [of "data out" "\<lambda>a. a"] by simp
qed

text \<open>
  Claim C9: for every batch \<open>x\<close> of shape \<open>[N, 1, 28, 28]\<close>, \<open>Net.forward(x)\<close> runs two
  stages of convolution and max-pooling, of shapes \<open>[N, 10, 12, 12]\<close> and \<open>[N, 20, 4, 4]\<close>,
  views the result as \<open>N\<close> rows of 320, applies the two fully-connected layers, and
  returns what the second of them gives: logits of shape \<open>[N, 10]\<close>, with no softmax.
\<close>

theorem Net_forward_logits:
  assumes "wf_Net m" and "shape x = [N, 1, 28, 28]"
  shows "\<exists>c1 p1 c2 p2 v f1 out.
           Conv2d_forward (conv1 m) x = Inr c1 \<and> shape c1 = [N, 10, 24, 24] \<and>
           max_pool2d c1 2 = Inr p1 \<and> shape p1 = [N, 10, 12, 12] \<and>
           Conv2d_forward (conv2 m) (relu p1) = Inr c2 \<and> shape c2 = [N, 20, 8, 8] \<and>
           max_pool2d c2 2 = Inr p2 \<and> shape p2 = [N, 20, 4, 4] \<and>
           view_rows (relu p2) 320 = Inr v \<and> shape v = [N, 320] \<and>
           Linear_forward (net_fc1 m) v = Inr f1 \<and> shape f1 = [N, 50] \<and>
           Linear_forward (net_fc2 m) (dropout keep (net_training m) (relu f1)) = Inr out \<and>
           Net_forward m keep x = Inr out \<and> shape out = [N, 10] \<and> wf_tensor out"
  using assms by (rule Net_forward_trace)

theorem Net_forward_logits_witness:
  "\<exists>out. Net_forward net0 keep_all (zeros [1, 1, 28, 28]) = Inr out \<and> shape out = [1, 10] \<and>
     wf_tensor out \<and> sum_list (data out) = 0"
proof -
  have "wf_Net net0" by (simp add: net0_def wf_Net_init)
  moreover have "shape (zeros [1, 1, 28, 28]) = [1, 1, 28, 28]" by (simp add: zeros_def)
  ultimately obtain out where out: "Net_forward net0 keep_all (zeros [1, 1, 28, 28]) = Inr out"
    and "shape out = [1, 10]" and "wf_tensor out"
    using Net_forward_logits [of net0 "zeros [1, 1, 28, 28]" 1 keep_all] by blast
  with Net_forward_zero_logits [OF out] show ?thesis by simp
qed

end
